theory Spec2Isabelle
  imports Main
begin

section \<open>The Python runtime that serve.py relies on\<close>

text \<open>
  serve.py is a script: a call of \<^verbatim>\<open>os.chdir\<close> at module level, two method overrides on
  \<^verbatim>\<open>http.server.SimpleHTTPRequestHandler\<close>, and a \<^verbatim>\<open>try\<close> statement around the server.
  What the script does is decided by how exceptions travel, so exceptions are values.
  Python's classes matter only through the three \<^verbatim>\<open>except\<close>-relevant branches of the
  hierarchy: \<^verbatim>\<open>KeyboardInterrupt\<close> and \<^verbatim>\<open>SystemExit\<close> derive from \<^verbatim>\<open>BaseException\<close> directly,
  as do a few others (\<^verbatim>\<open>GeneratorExit\<close>); everything else derives from \<^verbatim>\<open>Exception\<close>.
  The two strings are the class name and \<^verbatim>\<open>str(e)\<close>.
\<close>

datatype py_exception =
    KeyboardInterrupt
  | SystemExit int
  | BaseException_other string string
  | Exception string string

fun isinstance_KeyboardInterrupt :: "py_exception \<Rightarrow> bool" where
  "isinstance_KeyboardInterrupt KeyboardInterrupt = True"
| "isinstance_KeyboardInterrupt _ = False"

fun isinstance_Exception :: "py_exception \<Rightarrow> bool" where
  "isinstance_Exception (Exception c m) = True"
| "isinstance_Exception _ = False"

text \<open>Decimal notation, as \<^verbatim>\<open>str\<close> gives it for an \<^verbatim>\<open>int\<close>.\<close>

definition digit_char :: "nat \<Rightarrow> char" where
  "digit_char d = char_of (48 + d)"

fun str_nat :: "nat \<Rightarrow> string" where
  "str_nat n = (if n < 10 then [digit_char n] else str_nat (n div 10) @ [digit_char (n mod 10)])"

definition str_int :: "int \<Rightarrow> string" where
  "str_int i = (if i < 0 then CHR ''-'' # str_nat (nat (- i)) else str_nat (nat i))"

fun str_exception :: "py_exception \<Rightarrow> string" where
  "str_exception KeyboardInterrupt = []"
| "str_exception (SystemExit n) = str_int n"
| "str_exception (BaseException_other c m) = m"
| "str_exception (Exception c m) = m"

text \<open>
  What the process does that the outside can see, in order: the directory change, the
  construction of the listening socket (socket, bind, listen) at an address, a line
  printed on standard output (the text given to \<^verbatim>\<open>print\<close>, which adds the newline), the
  start of the accept loop, the closing of the listening socket, and the traceback that
  the interpreter writes on standard error for an exception nobody caught.
\<close>

datatype event =
    Chdir string
  | Bind string nat
  | Print string
  | Serve
  | Close
  | Traceback py_exception

text \<open>
  A statement returns, raises, or never comes back (\<^verbatim>\<open>serve_forever\<close> with no interrupt).
  An action is the events it caused and how it ended.
\<close>

datatype 'a outcome = Returns 'a | Raises py_exception | Blocks

type_synonym 'a action = "event list \<times> 'a outcome"

definition returns :: "'a \<Rightarrow> 'a action" where
  "returns a = ([], Returns a)"

definition raise :: "py_exception \<Rightarrow> 'a action" where
  "raise e = ([], Raises e)"

definition emit :: "event \<Rightarrow> unit action" where
  "emit ev = ([ev], Returns ())"

fun then_do :: "'a action \<Rightarrow> ('a \<Rightarrow> 'b action) \<Rightarrow> 'b action" where
  "then_do (es, Returns a) f = (case f a of (es', r) \<Rightarrow> (es @ es', r))"
| "then_do (es, Raises e) f = (es, Raises e)"
| "then_do (es, Blocks) f = (es, Blocks)"

text \<open>A suite: the statements one after the other, stopping at the first that raises.\<close>

fun suite :: "unit action list \<Rightarrow> unit action" where
  "suite [] = returns ()"
| "suite (s # ss) = then_do s (\<lambda>_. suite ss)"

text \<open>
  \<^verbatim>\<open>try: body except C1: h1 except C2 as e: h2\<close>. The first clause whose class matches the
  exception raised by the body runs; what the clause itself raises leaves the statement
  (the clauses guard the body, not each other). No matching clause: the exception
  travels on.
\<close>

type_synonym except_clause = "(py_exception \<Rightarrow> bool) \<times> (py_exception \<Rightarrow> unit action)"

fun try_except :: "unit action \<Rightarrow> except_clause list \<Rightarrow> unit action" where
  "try_except (es, Raises e) clauses =
     (case find (\<lambda>c. fst c e) clauses of
        None \<Rightarrow> (es, Raises e)
      | Some c \<Rightarrow> (case snd c e of (es', r) \<Rightarrow> (es @ es', r)))"
| "try_except (es, Returns a) clauses = (es, Returns a)"
| "try_except (es, Blocks) clauses = (es, Blocks)"

text \<open>
  \<^verbatim>\<open>with ctor as x: body\<close> for a context manager whose \<^verbatim>\<open>__exit__\<close> causes the events
  \<open>leave\<close> and returns \<^verbatim>\<open>None\<close> (socketserver's \<^verbatim>\<open>BaseServer.__exit__\<close> calls
  \<^verbatim>\<open>server_close\<close>): an exception of the constructor skips body and exit, an
  exception of the body passes through the exit.
\<close>

definition with_stmt :: "'a action \<Rightarrow> event list \<Rightarrow> ('a \<Rightarrow> unit action) \<Rightarrow> unit action" where
  "with_stmt ctor leave body =
     then_do ctor (\<lambda>x. case body x of
                          (es, Blocks) \<Rightarrow> (es, Blocks)
                        | (es, r) \<Rightarrow> (es @ leave, r))"

text \<open>
  The end of the process. CPython turns a \<^verbatim>\<open>SystemExit\<close> that reaches the top into
  the exit status it carries and prints nothing; for any other exception it writes the
  traceback to standard error and exits with status 1, except that after an uncaught
  \<^verbatim>\<open>KeyboardInterrupt\<close> it ends the process through the interrupt signal.
\<close>

datatype status = Exit int | Killed_by_SIGINT | Running

record process =
  trace :: "event list"
  status :: status

fun interpreter :: "unit action \<Rightarrow> process" where
  "interpreter (es, Returns a) = \<lparr>trace = es, status = Exit 0\<rparr>"
| "interpreter (es, Blocks) = \<lparr>trace = es, status = Running\<rparr>"
| "interpreter (es, Raises (SystemExit n)) = \<lparr>trace = es, status = Exit n\<rparr>"
| "interpreter (es, Raises KeyboardInterrupt) =
     \<lparr>trace = es @ [Traceback KeyboardInterrupt], status = Killed_by_SIGINT\<rparr>"
| "interpreter (es, Raises e) = \<lparr>trace = es @ [Traceback e], status = Exit 1\<rparr>"

section \<open>The world around the script\<close>

text \<open>
  The operating system decides how each library call ends: whether \<^verbatim>\<open>os.chdir\<close> of a
  path succeeds, what \<^verbatim>\<open>os.getcwd\<close> returns, whether the socket can be bound to an
  address, which lines the request handlers print while the accept loop runs
  (the sections on the handler say which), and how the loop ends: by an exception, or
  never. Writing to standard output and asking for the working directory are taken to
  succeed.
\<close>

record world =
  chdir_result :: "string \<Rightarrow> py_exception option"
  getcwd :: string
  bind_result :: "string \<times> nat \<Rightarrow> py_exception option"
  request_log :: "string list"
  loop_end :: "unit outcome"

definition os_chdir :: "world \<Rightarrow> string \<Rightarrow> unit action" where
  "os_chdir w p = ([Chdir p], case chdir_result w p of None \<Rightarrow> Returns () | Some e \<Rightarrow> Raises e)"

definition TCPServer :: "world \<Rightarrow> string \<times> nat \<Rightarrow> unit action" where
  "TCPServer w addr =
     ([Bind (fst addr) (snd addr)], case bind_result w addr of None \<Rightarrow> Returns () | Some e \<Rightarrow> Raises e)"

definition serve_forever :: "world \<Rightarrow> unit action" where
  "serve_forever w = (Serve # map Print (request_log w), loop_end w)"

definition print :: "string \<Rightarrow> unit action" where
  "print s = emit (Print s)"

definition sys_exit :: "int \<Rightarrow> unit action" where
  "sys_exit n = raise (SystemExit n)"

section \<open>serve.py: the script\<close>

definition PORT :: nat where
  "PORT = 8080"

text \<open>The banner and the two closing messages; the emoji are their UTF-8 bytes.\<close>

definition starting_line :: string where
  "starting_line =
     [CHR 0xF0, CHR 0x9F, CHR 0x9A, CHR 0x80] @ '' Server starting at http://localhost:'' @ str_nat PORT"

definition serving_line :: "world \<Rightarrow> string" where
  "serving_line w = [CHR 0xF0, CHR 0x9F, CHR 0x93, CHR 0x81] @ '' Serving files from: '' @ getcwd w"

definition open_line :: string where
  "open_line = [CHR 0xF0, CHR 0x9F, CHR 0x94, CHR 0x8D] @ '' Open http://localhost:8080 in your browser''"

definition press_line :: string where
  "press_line = ''Press Ctrl+C to stop the server''"

definition stopped_line :: string where
  "stopped_line = CHR 0x0A # [CHR 0xF0, CHR 0x9F, CHR 0x9B, CHR 0x91] @ '' Server stopped''"

definition error_line :: "py_exception \<Rightarrow> string" where
  "error_line e = [CHR 0xE2, CHR 0x9D, CHR 0x8C] @ '' Server error: '' @ str_exception e"

text \<open>Lines 29 to 34: the body of the \<^verbatim>\<open>try\<close>.\<close>

definition serving :: "world \<Rightarrow> unit action" where
  "serving w =
     with_stmt (TCPServer w ('''', PORT)) [Close]
       (\<lambda>httpd. suite [print starting_line,
                        print (serving_line w),
                        print open_line,
                        print press_line,
                        serve_forever w])"

text \<open>Lines 35 to 40: the two \<^verbatim>\<open>except\<close> clauses, in the order of the source.\<close>

definition clauses :: "except_clause list" where
  "clauses =
     [(isinstance_KeyboardInterrupt, \<lambda>e. suite [print stopped_line, sys_exit 0]),
      (isinstance_Exception, \<lambda>e. suite [print (error_line e), sys_exit 1])]"

definition main_block :: "world \<Rightarrow> unit action" where
  "main_block w = try_except (serving w) clauses"

text \<open>The module, run as a script: line 11, then the \<^verbatim>\<open>__main__\<close> block.\<close>

definition serve_py :: "world \<Rightarrow> unit action" where
  "serve_py w = suite [os_chdir w ''dist'', main_block w]"

definition run :: "world \<Rightarrow> process" where
  "run w = interpreter (serve_py w)"

section \<open>Strings as Python has them\<close>

text \<open>
  The request line is decoded as ISO-8859-1, so every character of the strings below is
  a code point under 256. \<^verbatim>\<open>str.isspace\<close>, \<^verbatim>\<open>str.lower\<close> and the comparison of strings
  are given for that range.
\<close>

definition CRLF :: string where
  "CRLF = [CHR 0x0D, CHR 0x0A]"



definition lower_char :: "char \<Rightarrow> char" where
  "lower_char c =
     (let n = (of_char c :: nat)
      in if (65 \<le> n \<and> n \<le> 90) \<or> (192 \<le> n \<and> n \<le> 222 \<and> n \<noteq> 215) then char_of (n + 32) else c)"

definition lower :: "string \<Rightarrow> string" where
  "lower s = map lower_char s"

definition startswith :: "string \<Rightarrow> string \<Rightarrow> bool" where
  "startswith s p = (take (length p) s = p)"

definition endswith :: "string \<Rightarrow> string \<Rightarrow> bool" where
  "endswith s p = (length p \<le> length s \<and> drop (length s - length p) s = p)"

text \<open>\<^verbatim>\<open>s.rstrip(chars)\<close> and \<^verbatim>\<open>s.lstrip(chars)\<close>.\<close>

definition lstrip :: "char set \<Rightarrow> string \<Rightarrow> string" where
  "lstrip chars s = dropWhile (\<lambda>c. c \<in> chars) s"

definition rstrip :: "char set \<Rightarrow> string \<Rightarrow> string" where
  "rstrip chars s = rev (dropWhile (\<lambda>c. c \<in> chars) (rev s))"




text \<open>Comparison of strings, \<^verbatim>\<open>a >= b\<close>: by code points, a proper prefix is smaller.\<close>

fun str_ge :: "string \<Rightarrow> string \<Rightarrow> bool" where
  "str_ge a [] = True"
| "str_ge [] (b # bs) = False"
| "str_ge (a # as) (b # bs) =
     (if (of_char a :: nat) > of_char b then True
      else if (of_char a :: nat) < of_char b then False
      else str_ge as bs)"


section \<open>The operator \<^verbatim>\<open>%\<close> on a format and a tuple\<close>

text \<open>
  The arguments that reach \<^verbatim>\<open>log_message\<close> are strings and integers. The conversions
  \<^verbatim>\<open>%s\<close>, \<^verbatim>\<open>%d\<close> and \<^verbatim>\<open>%%\<close> are spelled out, read from left to right as CPython does; at
  the first conversion of another kind (flags, widths, \<^verbatim>\<open>%r\<close>, \<^verbatim>\<open>%x\<close>, ...) the rest of
  the format and of the arguments is handed to \<open>rest\<close>, Python's own operator, which
  this theory leaves open.
\<close>

datatype pyval = PyStr string | PyInt int

fun str_pyval :: "pyval \<Rightarrow> string" where
  "str_pyval (PyStr s) = s"
| "str_pyval (PyInt i) = str_int i"

definition TypeError :: "string \<Rightarrow> py_exception" where
  "TypeError m = Exception ''TypeError'' m"

definition ValueError :: "string \<Rightarrow> py_exception" where
  "ValueError m = Exception ''ValueError'' m"

fun prepend :: "string \<Rightarrow> py_exception + string \<Rightarrow> py_exception + string" where
  "prepend s (Inl e) = Inl e"
| "prepend s (Inr t) = Inr (s @ t)"

type_synonym formatter = "string \<Rightarrow> pyval list \<Rightarrow> py_exception + string"

fun percent :: "formatter \<Rightarrow> string \<Rightarrow> pyval list \<Rightarrow> py_exception + string" where
  "percent rest [] [] = Inr []"
| "percent rest [] (a # as) = Inl (TypeError ''not all arguments converted during string formatting'')"
| "percent rest [c] args =
     (if c = CHR ''%'' then Inl (ValueError ''incomplete format'')
      else prepend [c] (percent rest [] args))"
| "percent rest (c # d # f) args =
     (if c \<noteq> CHR ''%'' then prepend [c] (percent rest (d # f) args)
      else if d = CHR ''%'' then prepend ''%'' (percent rest f args)
      else if d = CHR ''s'' then
        (case args of
           [] \<Rightarrow> Inl (TypeError ''not enough arguments for format string'')
         | a # as \<Rightarrow> prepend (str_pyval a) (percent rest f as))
      else if d = CHR ''d'' then
        (case args of
           [] \<Rightarrow> Inl (TypeError ''not enough arguments for format string'')
         | PyInt i # as \<Rightarrow> prepend (str_int i) (percent rest f as)
         | PyStr s # as \<Rightarrow> Inl (TypeError ''%d format: a real number is required, not str''))
      else rest (c # d # f) args)"

section \<open>http.server: the handler that serve.py extends\<close>

text \<open>
  \<^verbatim>\<open>MyHTTPRequestHandler\<close> inherits everything but \<^verbatim>\<open>end_headers\<close> and \<^verbatim>\<open>log_message\<close>
  from \<^verbatim>\<open>SimpleHTTPRequestHandler\<close> and \<^verbatim>\<open>BaseHTTPRequestHandler\<close> of the standard library
  (CPython 3.11, \<^verbatim>\<open>Lib/http/server.py\<close>). The inherited methods are given here as that
  file has them, with the names of that file.

  The members of \<^verbatim>\<open>http.HTTPStatus\<close> that \<^verbatim>\<open>http/server.py\<close> names on these paths, with
  their value, phrase and description (\<^verbatim>\<open>Lib/http/__init__.py\<close>).
\<close>

datatype HTTPStatus =
    CONTINUE | OK | NO_CONTENT | RESET_CONTENT | MOVED_PERMANENTLY | NOT_MODIFIED
  | BAD_REQUEST | NOT_FOUND | REQUEST_URI_TOO_LONG | REQUEST_HEADER_FIELDS_TOO_LARGE
  | NOT_IMPLEMENTED | HTTP_VERSION_NOT_SUPPORTED

fun status_value :: "HTTPStatus \<Rightarrow> nat" where
  "status_value CONTINUE = 100"
| "status_value OK = 200"
| "status_value NO_CONTENT = 204"
| "status_value RESET_CONTENT = 205"
| "status_value MOVED_PERMANENTLY = 301"
| "status_value NOT_MODIFIED = 304"
| "status_value BAD_REQUEST = 400"
| "status_value NOT_FOUND = 404"
| "status_value REQUEST_URI_TOO_LONG = 414"
| "status_value REQUEST_HEADER_FIELDS_TOO_LARGE = 431"
| "status_value NOT_IMPLEMENTED = 501"
| "status_value HTTP_VERSION_NOT_SUPPORTED = 505"

fun phrase :: "HTTPStatus \<Rightarrow> string" where
  "phrase CONTINUE = ''Continue''"
| "phrase OK = ''OK''"
| "phrase NO_CONTENT = ''No Content''"
| "phrase RESET_CONTENT = ''Reset Content''"
| "phrase MOVED_PERMANENTLY = ''Moved Permanently''"
| "phrase NOT_MODIFIED = ''Not Modified''"
| "phrase BAD_REQUEST = ''Bad Request''"
| "phrase NOT_FOUND = ''Not Found''"
| "phrase REQUEST_URI_TOO_LONG = ''Request-URI Too Long''"
| "phrase REQUEST_HEADER_FIELDS_TOO_LARGE = ''Request Header Fields Too Large''"
| "phrase NOT_IMPLEMENTED = ''Not Implemented''"
| "phrase HTTP_VERSION_NOT_SUPPORTED = ''HTTP Version Not Supported''"


text \<open>
  What has been written to the client, write by write. A flush of the header buffer
  writes the lines of the buffer joined; it is kept as the list of its lines. The
  writes of one file copy are kept as one chunk.
\<close>

datatype chunk = Head "string list" | Body string

fun sent :: "chunk list \<Rightarrow> string" where
  "sent [] = []"
| "sent (Head ls # cs) = concat ls @ sent cs"
| "sent (Body b # cs) = b @ sent cs"

text \<open>The attributes of a handler object.\<close>

record handler =
  client_address :: string
  requestline :: string
  request_version :: string
  command :: "string option"
  path :: string
  headers :: "(string \<times> string) list"
  close_connection :: bool
  headers_buffer :: "string list"
  wfile :: "chunk list"

text \<open>
  What one request brings: the line that \<^verbatim>\<open>rfile.readline(65537)\<close> returns, and what
  \<^verbatim>\<open>http.client.parse_headers\<close> makes of the lines after it.
\<close>

datatype header_lines = Parsed "(string \<times> string) list" | LineTooLong string | HTTPException string

record request =
  raw_requestline :: string
  header_block :: header_lines

text \<open>
  What the handler asks of the interpreter, the clock and the file system. Each field
  stands for the library function named beside it, left open.
\<close>

record env =
  percent_rest :: formatter                             \<comment> \<open>\<^verbatim>\<open>%\<close> beyond \<^verbatim>\<open>%s\<close>, \<^verbatim>\<open>%d\<close>, \<^verbatim>\<open>%%\<close>\<close>
  repr :: "string \<Rightarrow> string"                          \<comment> \<open>\<^verbatim>\<open>repr\<close> of a \<^verbatim>\<open>str\<close>\<close>
  version_string :: string                              \<comment> \<open>\<^verbatim>\<open>self.version_string()\<close>\<close>
  date_time_string :: string                            \<comment> \<open>\<^verbatim>\<open>self.date_time_string()\<close>, now\<close>
  error_page :: "HTTPStatus \<Rightarrow> string \<Rightarrow> string \<Rightarrow> string"
      \<comment> \<open>\<^verbatim>\<open>error_message_format\<close> filled with code, escaped message and explanation, in UTF-8\<close>
  translate_path :: "string \<Rightarrow> string"                \<comment> \<open>\<^verbatim>\<open>self.translate_path\<close>\<close>
  urlsplit_path :: "string \<Rightarrow> string"                 \<comment> \<open>\<^verbatim>\<open>urllib.parse.urlsplit(p).path\<close>\<close>
  redirect_url :: "string \<Rightarrow> string"
      \<comment> \<open>\<^verbatim>\<open>urlunsplit\<close> of the parts of \<^verbatim>\<open>self.path\<close> with \<^verbatim>\<open>/\<close> added to the path\<close>
  isdir :: "string \<Rightarrow> bool"                            \<comment> \<open>\<^verbatim>\<open>os.path.isdir\<close>\<close>
  isfile :: "string \<Rightarrow> bool"                           \<comment> \<open>\<^verbatim>\<open>os.path.isfile\<close>\<close>
  open_rb :: "string \<Rightarrow> string option"
      \<comment> \<open>\<^verbatim>\<open>open(path, 'rb')\<close>: the bytes of the file, or \<open>None\<close> for \<^verbatim>\<open>OSError\<close>\<close>
  last_modified :: "string \<Rightarrow> string"                 \<comment> \<open>\<^verbatim>\<open>date_time_string(fs.st_mtime)\<close>\<close>
  not_modified_since :: "string \<Rightarrow> string \<Rightarrow> bool"
      \<comment> \<open>the header value parses to a UTC date not before the file's modification\<close>
  guess_type :: "string \<Rightarrow> string"                    \<comment> \<open>\<^verbatim>\<open>self.guess_type\<close>\<close>
  listdir :: "string \<Rightarrow> string list option"            \<comment> \<open>\<^verbatim>\<open>os.listdir\<close>, \<open>None\<close> for \<^verbatim>\<open>OSError\<close>\<close>
  listing_page :: "string \<Rightarrow> string \<Rightarrow> string list \<Rightarrow> string"
      \<comment> \<open>the HTML that \<^verbatim>\<open>list_directory\<close> builds from the names, encoded\<close>
  filesystemencoding :: string                          \<comment> \<open>\<^verbatim>\<open>sys.getfilesystemencoding()\<close>\<close>

text \<open>Steps on the handler: a method call either returns the handler changed or raises.\<close>

definition pure :: "('s \<Rightarrow> 's) \<Rightarrow> 's \<Rightarrow> 's action" where
  "pure f s = returns (f s)"


subsection \<open>BaseHTTPRequestHandler: the header buffer\<close>

definition protocol_version :: string where
  "protocol_version = ''HTTP/1.0''"


text \<open>The two formats of the buffer: \<^verbatim>\<open>"%s %d %s\r\n"\<close> and \<^verbatim>\<open>"%s: %s\r\n"\<close>.\<close>

definition status_line :: "HTTPStatus \<Rightarrow> string \<Rightarrow> string" where
  "status_line code message =
     protocol_version @ '' '' @ str_nat (status_value code) @ '' '' @ message @ CRLF"

definition header_line :: "string \<Rightarrow> string \<Rightarrow> string" where
  "header_line keyword val = keyword @ '': '' @ val @ CRLF"

definition send_response_only :: "HTTPStatus \<Rightarrow> string option \<Rightarrow> handler \<Rightarrow> handler" where
  "send_response_only code message self =
     (if request_version self \<noteq> ''HTTP/0.9''
      then self\<lparr>headers_buffer := headers_buffer self @
             [status_line code (case message of None \<Rightarrow> phrase code | Some m \<Rightarrow> m)]\<rparr>
      else self)"

definition send_header :: "string \<Rightarrow> string \<Rightarrow> handler \<Rightarrow> handler" where
  "send_header keyword val self =
     (let self = (if request_version self \<noteq> ''HTTP/0.9''
                  then self\<lparr>headers_buffer := headers_buffer self @ [header_line keyword val]\<rparr>
                  else self)
      in if lower keyword = ''connection''
         then (if lower val = ''close'' then self\<lparr>close_connection := True\<rparr>
               else if lower val = ''keep-alive'' then self\<lparr>close_connection := False\<rparr>
               else self)
         else self)"

definition flush_headers :: "handler \<Rightarrow> handler" where
  "flush_headers self = self\<lparr>wfile := wfile self @ [Head (headers_buffer self)], headers_buffer := []\<rparr>"

definition BaseHTTPRequestHandler_end_headers :: "handler \<Rightarrow> handler" where
  "BaseHTTPRequestHandler_end_headers self =
     (if request_version self \<noteq> ''HTTP/0.9''
      then flush_headers (self\<lparr>headers_buffer := headers_buffer self @ [CRLF]\<rparr>)
      else self)"

section \<open>serve.py: the two overrides of MyHTTPRequestHandler\<close>

text \<open>Lines 16 to 21.\<close>

definition end_headers :: "handler \<Rightarrow> handler" where
  "end_headers self =
     (let self = send_header ''Access-Control-Allow-Origin'' ''*'' self;
          self = send_header ''Access-Control-Allow-Methods'' ''GET, POST, OPTIONS'' self;
          self = send_header ''Access-Control-Allow-Headers'' ''Content-Type'' self
      in BaseHTTPRequestHandler_end_headers self)"

text \<open>
  Lines 23 to 25. The handler is an argument, as \<^verbatim>\<open>self\<close> is; the body does not read it.
  An exception of \<^verbatim>\<open>format % args\<close> leaves the method before anything is printed.
\<close>

definition log_message :: "formatter \<Rightarrow> handler \<Rightarrow> string \<Rightarrow> pyval list \<Rightarrow> unit action" where
  "log_message rest self format args =
     (case percent rest format args of
        Inl e \<Rightarrow> raise e
      | Inr message \<Rightarrow> print (''[SERVER] '' @ message))"

section \<open>http.server: logging and responses\<close>

text \<open>
  The inherited methods call \<^verbatim>\<open>self.end_headers\<close> and \<^verbatim>\<open>self.log_message\<close>: on an object
  of \<^verbatim>\<open>MyHTTPRequestHandler\<close> these are the two overrides above.
\<close>

definition access_format :: string where
  "access_format = [CHR 0x22] @ ''%s'' @ [CHR 0x22] @ '' %s %s''"





definition handle_expect_100 :: "handler \<Rightarrow> handler" where
  "handle_expect_100 self = end_headers (send_response_only CONTINUE None self)"

section \<open>http.server: parse_request\<close>






text \<open>The path of a request line that starts with two slashes is reduced to one (gh-87389).\<close>

definition single_slash :: "string \<Rightarrow> string" where
  "single_slash pth = (if startswith pth ''//'' then ''/'' @ lstrip {CHR ''/''} pth else pth)"


text \<open>\<^verbatim>\<open>self.headers.get(name, "")\<close>: the names of headers are compared without case.\<close>

definition header_get :: "(string \<times> string) list \<Rightarrow> string \<Rightarrow> string option" where
  "header_get hs name = map_option snd (find (\<lambda>kv. lower (fst kv) = lower name) hs)"



section \<open>http.server: SimpleHTTPRequestHandler\<close>








text \<open>\<^verbatim>\<open>shutil.copyfileobj\<close>: nothing is written for an empty file.\<close>

definition copyfile :: "string \<Rightarrow> handler \<Rightarrow> handler" where
  "copyfile f self = (if f = [] then self else self\<lparr>wfile := wfile self @ [Body f]\<rparr>)"



section \<open>http.server: handle_one_request\<close>



text \<open>A handler as \<^verbatim>\<open>handle\<close> finds it on a new connection.\<close>

definition new_handler :: "string \<Rightarrow> handler" where
  "new_handler client =
     \<lparr>client_address = client, requestline = [], request_version = [], command = None, path = [],
      headers = [], close_connection = True, headers_buffer = [], wfile = []\<rparr>"

section \<open>Vocabulary of the properties\<close>



text \<open>
  The three lines that the override of \<^verbatim>\<open>end_headers\<close> adds, and the header blocks of the
  library's responses with them: the block of an error response, and the block of a
  response that starts with \<^verbatim>\<open>send_response(code)\<close> and goes on with the given lines.
\<close>

definition cors_headers :: "string list" where
  "cors_headers =
     [header_line ''Access-Control-Allow-Origin'' ''*'',
      header_line ''Access-Control-Allow-Methods'' ''GET, POST, OPTIONS'',
      header_line ''Access-Control-Allow-Headers'' ''Content-Type'']"






definition plain :: "string \<Rightarrow> bool" where
  "plain l \<longleftrightarrow> \<not> startswith l ''Access-Control-Allow-''"






text \<open>
  The request line as \<^verbatim>\<open>parse_request\<close> reads it; a request whose line has a method, a
  path and a version that is accepted (well formed and under 2.0); a request of two
  words (the HTTP/0.9 form); and the handler as \<^verbatim>\<open>parse_request\<close> leaves it.
\<close>

definition request_line :: "request \<Rightarrow> string" where
  "request_line req = rstrip {CHR 0x0D, CHR 0x0A} (raw_requestline req)"



definition parsed_handler :: "handler \<Rightarrow> request \<Rightarrow> string \<Rightarrow> string \<Rightarrow> string \<Rightarrow> (string \<times> string) list \<Rightarrow> handler" where
  "parsed_handler h req cmd p version hs =
     h\<lparr>command := Some cmd, request_version := version, close_connection := True,
       requestline := request_line req, path := single_slash p, headers := hs\<rparr>"

section \<open>A document root to serve from\<close>

text \<open>
  The directory \<^verbatim>\<open>/srv/app/dist\<close> with \<^verbatim>\<open>index.html\<close> and a subdirectory \<^verbatim>\<open>assets\<close>.
  The fields give the library functions on the paths of the requests below (a path of
  plain segments is appended to the directory; \<^verbatim>\<open>repr\<close> of a plain word puts it in
  quotes). The error page and the listing stand for the library's pages, whose text no
  property reads; \<open>percent_rest\<close> is never reached by the formats of the library.
\<close>

definition index_html :: string where
  "index_html = ''<!doctype html><title>Birch Lounge</title>''"

definition dist_env :: env where
  "dist_env =
     \<lparr>percent_rest = (\<lambda>f args. Inl (ValueError ''unsupported format character'')),
      repr = (\<lambda>s. [CHR 0x27] @ s @ [CHR 0x27]),
      version_string = ''SimpleHTTP/0.6 Python/3.11.10'',
      date_time_string = ''Tue, 03 Nov 2026 12:00:00 GMT'',
      error_page = (\<lambda>code message explain. ''<h1>Error response</h1><p>Message: '' @ message @ ''.</p>''),
      translate_path = (\<lambda>p. ''/srv/app/dist'' @ p),
      urlsplit_path = (\<lambda>p. p),
      redirect_url = (\<lambda>p. p @ ''/''),
      isdir = (\<lambda>p. p \<in> {''/srv/app/dist/'', ''/srv/app/dist/assets'', ''/srv/app/dist/assets/''}),
      isfile = (\<lambda>p. p = ''/srv/app/dist/index.html''),
      open_rb = (\<lambda>p. if p = ''/srv/app/dist/index.html'' then Some index_html else None),
      last_modified = (\<lambda>p. ''Mon, 02 Nov 2026 09:00:00 GMT''),
      not_modified_since = (\<lambda>p ims. ims = ''Mon, 02 Nov 2026 09:00:00 GMT''),
      guess_type = (\<lambda>p. if endswith p ''.html'' then ''text/html'' else ''application/octet-stream''),
      listdir = (\<lambda>p. if p = ''/srv/app/dist/assets/'' then Some [''app.js''] else None),
      listing_page = (\<lambda>p shown names. ''<ul>'' @ concat (map (\<lambda>n. ''<li>'' @ n @ ''</li>'') names) @ ''</ul>''),
      filesystemencoding = ''utf-8''\<rparr>"

definition get :: "string \<Rightarrow> request" where
  "get line = \<lparr>raw_requestline = line @ CRLF, header_block = Parsed [(''Host'', ''localhost:8080'')]\<rparr>"

definition client :: handler where
  "client = new_handler ''127.0.0.1''"

section \<open>Worlds to run the script in\<close>

definition world_interrupted :: world where
  "world_interrupted =
     \<lparr>chdir_result = (\<lambda>p. None), getcwd = ''/srv/app/dist'', bind_result = (\<lambda>a. None),
      request_log = [], loop_end = Raises KeyboardInterrupt\<rparr>"

definition FileNotFoundError :: py_exception where
  "FileNotFoundError = Exception ''FileNotFoundError'' (''[Errno 2] No such file or directory: '' @ [CHR 0x27] @ ''dist'' @ [CHR 0x27])"

definition world_no_dist :: world where
  "world_no_dist =
     \<lparr>chdir_result = (\<lambda>p. if p = ''dist'' then Some FileNotFoundError else None),
      getcwd = ''/srv/app'', bind_result = (\<lambda>a. None),
      request_log = [], loop_end = Blocks\<rparr>"




section \<open>Properties of the script\<close>


lemma trace_interpreter: "\<exists>tl. trace (interpreter (es, r)) = es @ tl"
proof (cases r)
  case (Raises e)
  then show ?thesis by (cases e) simp_all
qed simp_all




lemma serve_py_ok:
  assumes "chdir_result w ''dist'' = None" and "main_block w = (es, r)"
  shows "serve_py w = (Chdir ''dist'' # es, r)"
  using assms by (cases r) (simp_all add: serve_py_def os_chdir_def returns_def)

lemma serve_py_starts: "\<exists>es r. serve_py w = (Chdir ''dist'' # es, r)"
proof (cases "chdir_result w ''dist''")
  case None
  obtain es r where "main_block w = (es, r)" by (cases "main_block w")
  with None show ?thesis using serve_py_ok by blast
next
  case (Some e)
  then show ?thesis by (simp add: serve_py_def os_chdir_def)
qed

text \<open>
  Claim C3. The first thing the process does is \<^verbatim>\<open>os.chdir\<close> to the relative path
  \<^verbatim>\<open>dist\<close>, and when that call fails with an error (\<^verbatim>\<open>FileNotFoundError\<close> for a missing
  directory) the process does nothing else: the call is outside the \<^verbatim>\<open>try\<close>, so the
  interpreter prints the traceback and the exit status is 1.
\<close>

theorem chdir_dist_fatal:
  "(\<exists>es. trace (run w) = Chdir ''dist'' # es) \<and>
   (\<forall>c m. chdir_result w ''dist'' = Some (Exception c m) \<longrightarrow>
      run w = \<lparr>trace = [Chdir ''dist'', Traceback (Exception c m)], status = Exit 1\<rparr>)"
proof
  obtain es r where s: "serve_py w = (Chdir ''dist'' # es, r)"
    using serve_py_starts by blast
  obtain tl where "trace (interpreter (Chdir ''dist'' # es, r)) = (Chdir ''dist'' # es) @ tl"
    using trace_interpreter by blast
  with s show "\<exists>es. trace (run w) = Chdir ''dist'' # es"
    by (simp add: run_def)
next
  show "\<forall>c m. chdir_result w ''dist'' = Some (Exception c m) \<longrightarrow>
      run w = \<lparr>trace = [Chdir ''dist'', Traceback (Exception c m)], status = Exit 1\<rparr>"
    by (simp add: run_def serve_py_def os_chdir_def)
qed

theorem chdir_dist_fatal_witness:
  "run world_no_dist = \<lparr>trace = [Chdir ''dist'', Traceback FileNotFoundError], status = Exit 1\<rparr>"
  using chdir_dist_fatal [of world_no_dist]
  by (simp add: world_no_dist_def FileNotFoundError_def)







text \<open>
  Claim C9. When the body of the \<^verbatim>\<open>try\<close> ends with \<^verbatim>\<open>KeyboardInterrupt\<close>, the statement as
  a whole ends with \<^verbatim>\<open>SystemExit(0)\<close> right after the shutdown message: no clause of the
  statement matches \<^verbatim>\<open>SystemExit\<close>, nothing of the error clause runs, and the process
  exits with status 0.
\<close>

theorem interrupt_not_intercepted:
  assumes "serving w = (es, Raises KeyboardInterrupt)"
  shows "main_block w = (es @ [Print stopped_line], Raises (SystemExit 0)) \<and>
         find (\<lambda>c. fst c (SystemExit 0)) clauses = None \<and>
         (chdir_result w ''dist'' = None \<longrightarrow>
            run w = \<lparr>trace = Chdir ''dist'' # es @ [Print stopped_line], status = Exit 0\<rparr>)"
  using assms
  by (simp add: run_def serve_py_def main_block_def os_chdir_def clauses_def print_def emit_def
      sys_exit_def raise_def returns_def)

theorem interrupt_not_intercepted_witness:
  "main_block world_interrupted =
     ([Bind '''' 8080, Print starting_line, Print (serving_line world_interrupted), Print open_line,
       Print press_line, Serve, Close, Print stopped_line], Raises (SystemExit 0)) \<and>
   status (run world_interrupted) = Exit 0"
  using interrupt_not_intercepted [of world_interrupted
      "[Bind '''' 8080, Print starting_line, Print (serving_line world_interrupted), Print open_line,
        Print press_line, Serve, Close]"]
  by (simp add: world_interrupted_def serving_def with_stmt_def TCPServer_def serve_forever_def
      print_def emit_def returns_def PORT_def)

section \<open>Properties of the request handler\<close>

declare str_nat.simps [simp del]

lemma then_do_Returns: "then_do (es, Returns a) f = (es @ fst (f a), snd (f a))"
  by (cases "f a") simp

lemma then_do_returns [simp]: "then_do (returns a) f = f a"
  by (simp add: returns_def then_do_Returns)

declare then_do.simps(1) [simp del]

declare then_do_Returns [simp]

lemma then_do_pure [simp]: "then_do (pure f s) g = g (f s)"
  by (simp add: pure_def)

lemma fst_returns [simp]: "fst (returns a) = []" and snd_returns [simp]: "snd (returns a) = Returns a"
  by (simp_all add: returns_def)

lemma str_int_nat [simp]: "str_int (int n) = str_nat n"
  by (simp add: str_int_def)

lemma percent_access:
  "percent rest access_format [PyStr a, PyStr b, PyStr c] =
     Inr ([CHR 0x22] @ a @ [CHR 0x22] @ '' '' @ b @ '' '' @ c)"
  by (simp add: access_format_def)





lemma send_response_only_fields [simp]:
  "request_version (send_response_only c m h) = request_version h"
  "requestline (send_response_only c m h) = requestline h"
  "command (send_response_only c m h) = command h"
  "path (send_response_only c m h) = path h"
  "headers (send_response_only c m h) = headers h"
  "wfile (send_response_only c m h) = wfile h"
  "close_connection (send_response_only c m h) = close_connection h"
  "headers_buffer (send_response_only c m h) =
     (if request_version h \<noteq> ''HTTP/0.9''
      then headers_buffer h @ [status_line c (case m of None \<Rightarrow> phrase c | Some x \<Rightarrow> x)]
      else headers_buffer h)"
  by (simp_all add: send_response_only_def)

lemma send_header_fields [simp]:
  "request_version (send_header k v h) = request_version h"
  "requestline (send_header k v h) = requestline h"
  "command (send_header k v h) = command h"
  "path (send_header k v h) = path h"
  "headers (send_header k v h) = headers h"
  "wfile (send_header k v h) = wfile h"
  "headers_buffer (send_header k v h) =
     (if request_version h \<noteq> ''HTTP/0.9'' then headers_buffer h @ [header_line k v] else headers_buffer h)"
  by (simp_all add: send_header_def Let_def)

lemma end_headers_fields [simp]:
  "request_version (end_headers h) = request_version h"
  "requestline (end_headers h) = requestline h"
  "command (end_headers h) = command h"
  "path (end_headers h) = path h"
  "headers (end_headers h) = headers h"
  "wfile (end_headers h) =
     (if request_version h \<noteq> ''HTTP/0.9''
      then wfile h @ [Head (headers_buffer h @ cors_headers @ [CRLF])] else wfile h)"
  "headers_buffer (end_headers h) = (if request_version h \<noteq> ''HTTP/0.9'' then [] else headers_buffer h)"
  by (simp_all add: end_headers_def Let_def BaseHTTPRequestHandler_end_headers_def flush_headers_def
      cors_headers_def)





lemma plain_lines [simp]:
  "plain (status_line c m)"
  "plain (header_line ''Server'' v)"
  "plain (header_line ''Date'' v)"
  "plain (header_line ''Connection'' v)"
  "plain (header_line ''Content-Type'' v)"
  "plain (header_line ''Content-type'' v)"
  "plain (header_line ''Content-Length'' v)"
  "plain (header_line ''Location'' v)"
  "plain (header_line ''Last-Modified'' v)"
  by (simp_all add: plain_def startswith_def status_line_def header_line_def protocol_version_def)





















lemma copyfile_fields [simp]:
  "request_version (copyfile f h) = request_version h"
  "requestline (copyfile f h) = requestline h"
  "headers_buffer (copyfile f h) = headers_buffer h"
  "wfile (copyfile f h) = wfile h @ (if f = [] then [] else [Body f])"
  by (simp_all add: copyfile_def)



lemma protocol_1_0 [simp]: "str_ge protocol_version ''HTTP/1.1'' = False"
  by (simp add: protocol_version_def)








lemma handle_expect_100_fields [simp]:
  "command (handle_expect_100 h) = command h"
  by (simp add: handle_expect_100_def)






lemma parsed_handler_fields [simp]:
  "command (parsed_handler h req cmd p version hs) = Some cmd"
  "request_version (parsed_handler h req cmd p version hs) = version"
  "requestline (parsed_handler h req cmd p version hs) = request_line req"
  "path (parsed_handler h req cmd p version hs) = single_slash p"
  "headers (parsed_handler h req cmd p version hs) = hs"
  "headers_buffer (parsed_handler h req cmd p version hs) = headers_buffer h"
  "wfile (parsed_handler h req cmd p version hs) = wfile h"
  by (simp_all add: parsed_handler_def)

















lemma request_lines [simp]:
  "request_line (get ''GET / HTTP/1.1'') = ''GET / HTTP/1.1''"
  "request_line (get ''GET /missing.txt HTTP/1.1'') = ''GET /missing.txt HTTP/1.1''"
  "request_line (get ''GET /assets HTTP/1.1'') = ''GET /assets HTTP/1.1''"
  "request_line (get ''POST /api HTTP/1.1'') = ''POST /api HTTP/1.1''"
  "request_line (get ''GET /index.html'') = ''GET /index.html''"
  by (simp_all add: request_line_def get_def rstrip_def CRLF_def)

lemma client_fields [simp]: "headers_buffer client = []" "wfile client = []"
  by (simp_all add: client_def new_handler_def)

lemma single_slash_plain [simp]:
  "single_slash ''/'' = ''/''" "single_slash ''/missing.txt'' = ''/missing.txt''"
  "single_slash ''/assets'' = ''/assets''" "single_slash ''/index.html'' = ''/index.html''"
  by (simp_all add: single_slash_def startswith_def)

lemma header_lookup [simp]: "header_get [(''Host'', ''localhost:8080'')] ''If-Modified-Since'' = None"
  by (simp add: header_get_def lower_def lower_char_def)

lemma dist_env_fields [simp]:
  "translate_path dist_env p = ''/srv/app/dist'' @ p"
  "urlsplit_path dist_env p = p"
  "redirect_url dist_env p = p @ ''/''"
  "isdir dist_env p = (p \<in> {''/srv/app/dist/'', ''/srv/app/dist/assets'', ''/srv/app/dist/assets/''})"
  "isfile dist_env p = (p = ''/srv/app/dist/index.html'')"
  "open_rb dist_env p = (if p = ''/srv/app/dist/index.html'' then Some index_html else None)"
  "last_modified dist_env p = ''Mon, 02 Nov 2026 09:00:00 GMT''"
  "guess_type dist_env p = (if endswith p ''.html'' then ''text/html'' else ''application/octet-stream'')"
  "error_page dist_env code message explain = ''<h1>Error response</h1><p>Message: '' @ message @ ''.</p>''"
  "repr dist_env s = [CHR 0x27] @ s @ [CHR 0x27]"
  by (simp_all add: dist_env_def)

lemma index_html_length [simp]: "length index_html = 42"
  by (simp add: index_html_def)

lemma index_html_not_empty [simp]: "index_html \<noteq> []"
  by (simp add: index_html_def)

lemma str_nat_42 [simp]: "str_nat 42 = ''42''"
  by code_simp












lemma str_nat_404 [simp]: "str_nat 404 = ''404''"
  by code_simp

lemma str_nat_200 [simp]: "str_nat 200 = ''200''"
  by code_simp






lemma percent_plain: "CHR ''%'' \<notin> set f \<Longrightarrow> percent rest f [] = Inr f"
  by (induction rest f "[] :: pyval list" rule: percent.induct) auto

text \<open>
  Claim C10. What \<^verbatim>\<open>log_message\<close> does is the same for any two handlers: it prints
  \<^verbatim>\<open>[SERVER]\<close>, a space and \<^verbatim>\<open>format % args\<close>, or raises what \<^verbatim>\<open>%\<close> raises and prints
  nothing. For a format without \<^verbatim>\<open>%\<close> and no argument the line is the prefix and the
  format itself: nothing of the handler, the clock or the client is added.
\<close>

theorem log_message_only_format_and_args:
  "log_message rest self format args = log_message rest other format args
   \<and> (\<forall>message. percent rest format args = Inr message
         \<longrightarrow> log_message rest self format args = ([Print (''[SERVER] '' @ message)], Returns ()))
   \<and> (\<forall>e. percent rest format args = Inl e \<longrightarrow> log_message rest self format args = ([], Raises e))
   \<and> (CHR ''%'' \<notin> set format \<longrightarrow> log_message rest self format [] = ([Print (''[SERVER] '' @ format)], Returns ()))"
  by (simp add: log_message_def print_def emit_def raise_def percent_plain)

theorem log_message_only_format_and_args_witness:
  "log_message (percent_rest dist_env) client access_format
       [PyStr ''GET / HTTP/1.1'', PyStr ''200'', PyStr ''-'']
     = ([Print (''[SERVER] '' @ [CHR 0x22] @ ''GET / HTTP/1.1'' @ [CHR 0x22] @ '' 200 -'')], Returns ())
   \<and> log_message (percent_rest dist_env) (new_handler ''192.168.1.7'') access_format
       [PyStr ''GET / HTTP/1.1'', PyStr ''200'', PyStr ''-'']
     = log_message (percent_rest dist_env) client access_format
       [PyStr ''GET / HTTP/1.1'', PyStr ''200'', PyStr ''-'']"
  using log_message_only_format_and_args [where rest = "percent_rest dist_env" and self = client
      and other = "new_handler ''192.168.1.7''" and format = access_format
      and args = "[PyStr ''GET / HTTP/1.1'', PyStr ''200'', PyStr ''-'']"]
    percent_access [of "percent_rest dist_env" "''GET / HTTP/1.1''" "''200''" "''-''"]
  by auto

end
